theory Spec2Isabelle
  imports Main
begin

section \<open>Go string primitives used by the framework\<close>

text \<open>
  A Go string is a sequence of bytes, as a HOL \<open>string\<close> is. The three functions
  below follow the package \<open>strings\<close>: \<open>HasSuffix\<close> and \<open>HasPrefix\<close> compare the
  tail or the head of the right length, \<open>Contains\<close> looks for the substring at every
  offset.
\<close>

definition HasSuffix :: "string \<Rightarrow> string \<Rightarrow> bool" where
  "HasSuffix s suf =
     (length suf \<le> length s \<and> drop (length s - length suf) s = suf)"

definition HasPrefix :: "string \<Rightarrow> string \<Rightarrow> bool" where
  "HasPrefix s pre = (length pre \<le> length s \<and> take (length pre) s = pre)"

fun Contains :: "string \<Rightarrow> string \<Rightarrow> bool" where
  "Contains [] sub = (sub = [])"
| "Contains (c # cs) sub = (HasPrefix (c # cs) sub \<or> Contains cs sub)"

text \<open>\<open>Itoa\<close> is the decimal text that \<open>%d\<close> and \<open>%v\<close> print for an integer.\<close>

definition digit :: "nat \<Rightarrow> char" where
  "digit d = ''0123456789'' ! d"

fun decimal :: "nat \<Rightarrow> string" where
  "decimal n = (if n < 10 then [digit n] else decimal (n div 10) @ [digit (n mod 10)])"

definition Itoa :: "int \<Rightarrow> string" where
  "Itoa i = (if i < 0 then CHR ''-'' # decimal (nat (- i)) else decimal (nat i))"

section \<open>Naming utility (generator/generator.go, framework/router.go)\<close>

text \<open>
  \<open>pluralize\<close> and \<open>singularize\<close> of the generator, and \<open>singleName\<close> of the
  router, which has the body of \<open>singularize\<close>. A slice \<open>s[:len(s)-k]\<close> is
  \<open>take (length s - k) s\<close>; every slice is taken under a suffix test that makes
  \<open>k \<le> length s\<close>.
\<close>

definition pluralize :: "string \<Rightarrow> string" where
  "pluralize s =
     (if HasSuffix s ''y'' then take (length s - 1) s @ ''ies''
      else if HasSuffix s ''s'' \<or> HasSuffix s ''x'' then s @ ''es''
      else s @ ''s'')"

definition singularize :: "string \<Rightarrow> string" where
  "singularize s =
     (if HasSuffix s ''ies'' then take (length s - 3) s @ ''y''
      else if HasSuffix s ''ses'' \<or> HasSuffix s ''xes'' then take (length s - 2) s
      else if HasSuffix s ''s'' then take (length s - 1) s
      else s)"

definition singleName :: "string \<Rightarrow> string" where
  "singleName name =
     (if HasSuffix name ''ies'' then take (length name - 3) name @ ''y''
      else if HasSuffix name ''ses'' \<or> HasSuffix name ''xes'' then take (length name - 2) name
      else if HasSuffix name ''s'' then take (length name - 1) name
      else name)"

section \<open>The HTTP collaborators: request and response sink\<close>

text \<open>
  The framework reads an \<open>http.Request\<close> and writes to an \<open>http.ResponseWriter\<close>.
  Both belong to the standard library; the model keeps what the framework touches.

  A request: method, path, headers (by canonical name, \<open>Header.Get\<close> giving the empty
  string for an absent header), cookies in order, the parsed form with the error of
  \<open>ParseForm\<close> if there was one, the body as \<open>io.ReadAll\<close> returns it (an error or
  the bytes), and the remote address.
\<close>

record request =
  ReqMethod :: string
  ReqPath :: string
  ReqHeader :: "string \<rightharpoonup> string"
  ReqCookies :: "(string \<times> string) list"
  ReqForm :: "string \<rightharpoonup> string list"
  ParseFormError :: "string option"
  ReqBody :: "string + string"
  RemoteAddr :: string

definition Header_Get :: "(string \<rightharpoonup> string) \<Rightarrow> string \<Rightarrow> string" where
  "Header_Get h k = (case h k of None \<Rightarrow> [] | Some v \<Rightarrow> v)"

text \<open>\<open>r.Cookie(name)\<close>: the first cookie of that name, or \<open>ErrNoCookie\<close>.\<close>

definition Cookie :: "request \<Rightarrow> string \<Rightarrow> string option" where
  "Cookie r name = map_of (ReqCookies r) name"

text \<open>\<open>r.FormValue(key)\<close>: the first value of the key in the parsed form, or the
  empty string.\<close>

definition FormValue :: "request \<Rightarrow> string \<Rightarrow> string" where
  "FormValue r key =
     (case ReqForm r key of None \<Rightarrow> [] | Some [] \<Rightarrow> [] | Some (v # _) \<Rightarrow> v)"

text \<open>
  The values the framework hands to the JSON encoder: strings, string lists, the
  field-error map \<open>map[string][]string\<close>, a map literal \<open>H{...}\<close> with its entries, and
  a value the encoder refuses (with the encoder's message).
\<close>

datatype gvalue =
    GString string
  | GStrings "string list"
  | GFieldErrors "string \<rightharpoonup> string list"
  | GMap "(string \<times> gvalue) list"
  | GUnsupported string

fun encode_error :: "gvalue \<Rightarrow> string option" where
  "encode_error (GUnsupported m) = Some m"
| "encode_error (GMap kvs) =
     (case filter (\<lambda>e. e \<noteq> None) (map (\<lambda>kv. encode_error (snd kv)) kvs) of
        [] \<Rightarrow> None | e # _ \<Rightarrow> e)"
| "encode_error _ = None"

text \<open>
  What is written to the sink, one entry per write: a JSON document (the value given to
  \<open>Encode\<close>, which appends a newline), plain text, the note that \<open>http.Redirect\<close>
  writes for a GET request, and the development error page (the fault message and the
  raw stack text it is rendered from).
\<close>

datatype chunk =
    JSONDoc gvalue
  | Text string
  | RedirectNote string
  | DevPage string string

text \<open>
  A call that can panic: it either completes, or panics with a value (of which the
  model keeps the text \<open>%v\<close> prints); in both cases the state it leaves is kept.
\<close>

datatype 'a result = Done 'a | Panicked string 'a

fun state_of :: "'a result \<Rightarrow> 'a" where
  "state_of (Done x) = x"
| "state_of (Panicked p x) = x"

fun panicked :: "'a result \<Rightarrow> bool" where
  "panicked (Done x) = False"
| "panicked (Panicked p x) = True"

text \<open>
  The response sink. \<open>header\<close> is the live header map. \<open>WriteHeader\<close> ignores the
  call when the status line has been sent; otherwise it panics on a code outside
  100..999 (\<open>checkWriteHeaderCode\<close>), sends an interim response for a 1xx code other
  than 101 and leaves the status line unsent, and for any other code sends the status
  line with a snapshot of the headers. \<open>Write\<close> sends status 200 first when no status
  line has been sent. Headers set after the status line has gone change the live map
  only. \<open>final_code\<close> says that a code is accepted and is not interim.
\<close>

record response =
  header :: "string \<rightharpoonup> string list"
  wroteHeader :: bool
  status :: int
  sentHeader :: "string \<rightharpoonup> string list"
  body :: "chunk list"

text \<open>A sink to which nothing was written; its status reads 200 until a status line
  is sent.\<close>

definition NewRecorder :: response where
  "NewRecorder = \<lparr>header = Map.empty, wroteHeader = False, status = 200,
                  sentHeader = Map.empty, body = []\<rparr>"

definition Header_Set :: "string \<Rightarrow> string \<Rightarrow> response \<Rightarrow> response" where
  "Header_Set k v w = w\<lparr>header := (header w)(k \<mapsto> [v])\<rparr>"

definition Header_Add :: "string \<Rightarrow> string \<Rightarrow> response \<Rightarrow> response" where
  "Header_Add k v w =
     w\<lparr>header := (header w)(k \<mapsto> (case header w k of None \<Rightarrow> [] | Some vs \<Rightarrow> vs) @ [v])\<rparr>"

definition Header_Del :: "string \<Rightarrow> response \<Rightarrow> response" where
  "Header_Del k w = w\<lparr>header := (header w)(k := None)\<rparr>"

definition checkWriteHeaderCode :: "int \<Rightarrow> string option" where
  "checkWriteHeaderCode code =
     (if code < 100 \<or> code > 999 then Some (''invalid WriteHeader code '' @ Itoa code)
      else None)"

definition final_code :: "int \<Rightarrow> bool" where
  "final_code code \<longleftrightarrow> (code = 101 \<or> 200 \<le> code) \<and> code \<le> 999"

definition WriteHeader :: "int \<Rightarrow> response \<Rightarrow> response result" where
  "WriteHeader code w =
     (if wroteHeader w then Done w
      else case checkWriteHeaderCode code of
        Some p \<Rightarrow> Panicked p w
      | None \<Rightarrow>
          (if 100 \<le> code \<and> code \<le> 199 \<and> code \<noteq> 101 then Done w
           else Done (w\<lparr>wroteHeader := True, status := code, sentHeader := header w\<rparr>)))"

definition Write :: "chunk \<Rightarrow> response \<Rightarrow> response" where
  "Write c w =
     (let w' = (if wroteHeader w then w
                else w\<lparr>wroteHeader := True, status := 200, sentHeader := header w\<rparr>)
      in w'\<lparr>body := body w' @ [c]\<rparr>)"

text \<open>\<open>http.Error(w, msg, code)\<close>.\<close>

definition http_Error :: "response \<Rightarrow> string \<Rightarrow> int \<Rightarrow> response result" where
  "http_Error w msg code =
     (case WriteHeader code
             (Header_Set ''X-Content-Type-Options'' ''nosniff''
               (Header_Set ''Content-Type'' ''text/plain; charset=utf-8''
                 (Header_Del ''Content-Length'' w))) of
        Panicked p w' \<Rightarrow> Panicked p w'
      | Done w' \<Rightarrow> Done (Write (Text (msg @ [CHR 0x0A])) w'))"


section \<open>Error taxonomy and Context (framework/context.go)\<close>

record HTTPError =
  Code :: int
  Message :: string
  Errors :: "(string \<rightharpoonup> string list) option"

text \<open>A Go \<open>error\<close> value: an \<open>*HTTPError\<close>, or any other error with its message.
  The field \<open>Errors\<close> is \<open>None\<close> for a nil map.\<close>

datatype goerror = HTTPErr HTTPError | PlainErr string

fun Error :: "goerror \<Rightarrow> string" where
  "Error (HTTPErr e) = Message e"
| "Error (PlainErr m) = m"

text \<open>
  The renderer collaborator: what executing the named template writes, and its error.
  The application carries an optional renderer and an optional configuration, of
  which the dispatcher reads the environment name.
\<close>

type_synonym Renderer = "string \<Rightarrow> gvalue \<Rightarrow> string list \<times> string option"

record Config =
  Env :: string

record App =
  Renderer :: "Renderer option"
  Config :: "Config option"

record Context =
  Response :: response
  Request :: request
  app :: "App option"
  currentUser :: "gvalue option"
  statusCode :: int
  written :: bool
  cacheTTL :: int

definition NewContext :: "response \<Rightarrow> request \<Rightarrow> App option \<Rightarrow> Context" where
  "NewContext w r a =
     \<lparr>Response = w, Request = r, app = a, currentUser = None,
      statusCode = 0, written = False, cacheTTL = 0\<rparr>"

definition IsJSON :: "Context \<Rightarrow> bool" where
  "IsJSON c =
     Contains (Header_Get (ReqHeader (Request c)) ''Content-Type'') ''application/json''"

subsection \<open>The four writers\<close>

text \<open>
  A call on the context either returns (an error or nil) or panics; in both cases the
  context and the sink are left as the call made them. The writers return what the
  source function returns, or panic where \<open>WriteHeader\<close> does. \<open>Encode\<close> builds the
  whole document before it writes, so a value it refuses leaves the body as it was.
\<close>

datatype outcome = Return "goerror option" Context | Panic string Context

fun context_of :: "outcome \<Rightarrow> Context" where
  "context_of (Return e c) = c"
| "context_of (Panic p c) = c"

definition JSON :: "int \<Rightarrow> gvalue \<Rightarrow> Context \<Rightarrow> outcome" where
  "JSON st v c =
     (case WriteHeader st (Header_Set ''Content-Type'' ''application/json'' (Response c)) of
        Panicked p w \<Rightarrow> Panic p (c\<lparr>Response := w\<rparr>)
      | Done w \<Rightarrow>
          (let c1 = c\<lparr>Response := w, statusCode := st, written := True\<rparr>
           in case encode_error v of
                Some m \<Rightarrow> Return (Some (PlainErr m)) c1
              | None \<Rightarrow> Return None (c1\<lparr>Response := Write (JSONDoc v) w\<rparr>)))"




definition Status :: "int \<Rightarrow> Context \<Rightarrow> outcome" where
  "Status code c =
     (case WriteHeader code (Response c) of
        Panicked p w \<Rightarrow> Panic p (c\<lparr>Response := w\<rparr>)
      | Done w \<Rightarrow> Return None (c\<lparr>Response := w, statusCode := code, written := True\<rparr>))"

subsection \<open>Error constructors\<close>

definition BadRequest :: "goerror \<Rightarrow> goerror" where
  "BadRequest err = HTTPErr \<lparr>Code = 400, Message = Error err, Errors = None\<rparr>"


definition Forbidden :: "string \<Rightarrow> goerror" where
  "Forbidden msg = HTTPErr \<lparr>Code = 403, Message = msg, Errors = None\<rparr>"

definition UnprocessableEntity :: "(string \<rightharpoonup> string list) option \<Rightarrow> goerror" where
  "UnprocessableEntity errors =
     HTTPErr \<lparr>Code = 422, Message = ''Validation failed'', Errors = errors\<rparr>"

definition InternalError :: "goerror \<Rightarrow> goerror" where
  "InternalError err = HTTPErr \<lparr>Code = 500, Message = Error err, Errors = None\<rparr>"

subsection \<open>Request binding\<close>

text \<open>
  The decoder and the validator are libraries. \<open>Unmarshal data v\<close> decodes the bytes
  into the target \<open>v\<close> and gives the filled target or the decoder's message;
  \<open>Marshal\<close> encodes the form map; \<open>Struct\<close> is \<open>validate.Struct\<close>, which returns
  nil, a list of field errors, or an error of another type (for a target that is not
  a struct), on which the type assertion of \<open>Bind\<close> panics.
\<close>

record FieldError =
  Field :: string
  Tag :: string
  Param :: string

datatype validation = Valid | ValidationErrors "FieldError list" | InvalidValidationError string

record 'v codec =
  Unmarshal :: "string \<Rightarrow> 'v \<Rightarrow> string + 'v"
  Marshal :: "(string \<rightharpoonup> gvalue) \<Rightarrow> string + string"
  Struct :: "'v \<Rightarrow> validation"

definition BindJSON :: "'v codec \<Rightarrow> Context \<Rightarrow> 'v \<Rightarrow> string + 'v" where
  "BindJSON lib c v =
     (case ReqBody (Request c) of
        Inl e \<Rightarrow> Inl e
      | Inr bytes \<Rightarrow> Unmarshal lib bytes v)"

definition formMap :: "request \<Rightarrow> (string \<rightharpoonup> gvalue)" where
  "formMap r = (\<lambda>key. case ReqForm r key of
                   None \<Rightarrow> None
                 | Some values \<Rightarrow>
                     (if length values = 1 then Some (GString (hd values))
                      else Some (GStrings values)))"

definition BindForm :: "'v codec \<Rightarrow> Context \<Rightarrow> 'v \<Rightarrow> string + 'v" where
  "BindForm lib c v =
     (case ParseFormError (Request c) of
        Some e \<Rightarrow> Inl e
      | None \<Rightarrow>
          (case Marshal lib (formMap (Request c)) of
             Inl e \<Rightarrow> Inl e
           | Inr data \<Rightarrow> Unmarshal lib data v))"

definition field_message :: "FieldError \<Rightarrow> string" where
  "field_message e =
     (if Param e \<noteq> [] then Field e @ '' must be '' @ Tag e @ '' '' @ Param e
      else Field e @ '' is invalid ('' @ Tag e @ '')'')"

definition add_field_error ::
  "FieldError \<Rightarrow> (string \<rightharpoonup> string list) \<Rightarrow> (string \<rightharpoonup> string list)" where
  "add_field_error e errs =
     errs(Field e \<mapsto> (case errs (Field e) of None \<Rightarrow> [] | Some ms \<Rightarrow> ms) @ [field_message e])"

text \<open>The result of \<open>Bind\<close>: the returned error with the decoded target (none when
  decoding failed: what a failed decode leaves in the target is the decoder's
  business), or the panic of the failed type assertion.\<close>

datatype 'v bound = Bound "goerror option" "'v option" | BindPanic string

definition Bind :: "'v codec \<Rightarrow> Context \<Rightarrow> 'v \<Rightarrow> 'v bound" where
  "Bind lib c v =
     (case (if IsJSON c then BindJSON lib c v else BindForm lib c v) of
        Inl e \<Rightarrow> Bound (Some (HTTPErr \<lparr>Code = 400, Message = e, Errors = None\<rparr>)) None
      | Inr v' \<Rightarrow>
          (case Struct lib v' of
             Valid \<Rightarrow> Bound None (Some v')
           | ValidationErrors es \<Rightarrow>
               Bound (Some (UnprocessableEntity (Some (fold add_field_error es Map.empty))))
                 (Some v')
           | InvalidValidationError m \<Rightarrow> BindPanic m))"

section \<open>Action dispatcher (framework/controller.go, framework/errorpage.go)\<close>

text \<open>An action is a call on the context.\<close>

type_synonym Action = "Context \<Rightarrow> outcome"

definition handleActionError :: "Context \<Rightarrow> goerror \<Rightarrow> Context result" where
  "handleActionError ctx err =
     (if written ctx then Done ctx
      else case err of
        HTTPErr httpErr \<Rightarrow>
          (if IsJSON ctx \<or> Errors httpErr \<noteq> None then
             (case JSON (Code httpErr)
                     (case Errors httpErr of
                        None \<Rightarrow> GMap [(''error'', GString (Message httpErr))]
                      | Some fe \<Rightarrow> GMap [(''errors'', GFieldErrors fe)])
                     ctx of
                Return _ ctx' \<Rightarrow> Done ctx'
              | Panic p ctx' \<Rightarrow> Panicked p ctx')
           else
             (case http_Error (Response ctx) (Message httpErr) (Code httpErr) of
                Done w \<Rightarrow> Done (ctx\<lparr>Response := w\<rparr>)
              | Panicked p w \<Rightarrow> Panicked p (ctx\<lparr>Response := w\<rparr>)))
      | PlainErr _ \<Rightarrow>
          (if IsJSON ctx then
             (case JSON 500 (GMap [(''error'', GString ''Internal Server Error'')]) ctx of
                Return _ ctx' \<Rightarrow> Done ctx'
              | Panic p ctx' \<Rightarrow> Panicked p ctx')
           else
             (case http_Error (Response ctx) ''Internal Server Error'' 500 of
                Done w \<Rightarrow> Done (ctx\<lparr>Response := w\<rparr>)
              | Panicked p w \<Rightarrow> Panicked p (ctx\<lparr>Response := w\<rparr>))))"

text \<open>
  What serving a request leaves: the sink after the handler function returned, or a
  panic that left the handler function, with the sink as it was then.
\<close>

datatype served = Served response | Escaped string response

text \<open>
  \<open>DevErrorHandler\<close> sends status 500, sets the content type and executes the error
  page template on the fault message and the parsed \<open>debug.Stack()\<close>; the stack text
  comes from the runtime and is a parameter. \<open>ProdErrorHandler\<close> sends status 500,
  sets the content type, writes a fixed body and then logs through the package
  variable \<open>Log\<close>, a nil pointer until \<open>InitLogger\<close> has run (\<open>logger\<close> says whether
  it has). Both run inside the deferred function of the guard, so a panic of theirs
  leaves the handler function.
\<close>

definition DevErrorHandler :: "string \<Rightarrow> response \<Rightarrow> request \<Rightarrow> string \<Rightarrow> served" where
  "DevErrorHandler stack w r err =
     (case WriteHeader 500 w of
        Panicked p w' \<Rightarrow> Escaped p w'
      | Done w' \<Rightarrow>
          Served (Write (DevPage err stack)
                    (Header_Set ''Content-Type'' ''text/html; charset=utf-8'' w')))"

definition prod_body :: string where
  \<open>prod_body = ''{"error": "Something went wrong"}''\<close>

definition ProdErrorHandler :: "bool \<Rightarrow> response \<Rightarrow> request \<Rightarrow> string \<Rightarrow> served" where
  "ProdErrorHandler logger w r err =
     (case WriteHeader 500 w of
        Panicked p w' \<Rightarrow> Escaped p w'
      | Done w1 \<Rightarrow>
          (let w' = Write (Text prod_body) (Header_Set ''Content-Type'' ''application/json'' w1)
           in if logger then Served w'
              else Escaped ''runtime error: invalid memory address or nil pointer dereference''
                     w'))"

definition is_development :: "App option \<Rightarrow> bool" where
  "is_development a =
     (case a of
        None \<Rightarrow> False
      | Some ap \<Rightarrow> (case Config ap of None \<Rightarrow> False | Some cfg \<Rightarrow> Env cfg = ''development''))"

text \<open>The deferred function of \<open>ActionHandler\<close>, run when the action or
  \<open>handleActionError\<close> panics.\<close>

definition recovered ::
  "bool \<Rightarrow> string \<Rightarrow> App option \<Rightarrow> response \<Rightarrow> request \<Rightarrow> string \<Rightarrow> served" where
  "recovered logger stack a w r err =
     (if is_development a then DevErrorHandler stack w r err
      else ProdErrorHandler logger w r err)"

definition ActionHandler ::
  "bool \<Rightarrow> string \<Rightarrow> Action \<Rightarrow> App option \<Rightarrow> response \<Rightarrow> request \<Rightarrow> served" where
  "ActionHandler logger stack action a w r =
     (case action (NewContext w r a) of
        Panic err ctx \<Rightarrow> recovered logger stack a (Response ctx) r err
      | Return None ctx \<Rightarrow> Served (Response ctx)
      | Return (Some err) ctx \<Rightarrow>
          (case handleActionError ctx err of
             Done ctx' \<Rightarrow> Served (Response ctx')
           | Panicked p ctx' \<Rightarrow> recovered logger stack a (Response ctx') r p))"

definition Wrap :: "bool \<Rightarrow> string \<Rightarrow> Action \<Rightarrow> response \<Rightarrow> request \<Rightarrow> served" where
  "Wrap logger stack action = ActionHandler logger stack action None"

section \<open>The path table of the underlying router\<close>

text \<open>
  The framework registers into a \<open>chi.Mux\<close> and leaves matching to it. The model keeps
  the entries of a mux in registration order: an endpoint (method, pattern, handler)
  or a mounted sub-mux (\<open>Route\<close> is \<open>Mount\<close> of a fresh sub-mux). Handlers are named
  by a label. Patterns are the ones the framework builds: literal segments and
  \<open>{name}\<close> segments; a path and a pattern are read as their non-empty segments.

  Matching: an endpoint matches a path that its pattern matches in full; a mount matches
  a path of which its pattern matches a prefix, and passes the rest to the sub-mux,
  for every method. Among the entries that match and take the method, a literal segment
  is preferred to a parameter, a parameter to the rest-of-path match of a mount, and of
  two equal shapes the later registration counts. A path that only entries of other
  methods match is answered 405, a path that nothing matches 404. What the library
  does at registration time beyond recording the entry (it refuses a second mount on
  one pattern) is not part of the model.
\<close>

fun split_on :: "char \<Rightarrow> string \<Rightarrow> string list" where
  "split_on sep [] = [[]]"
| "split_on sep (x # xs) =
     (if x = sep then [] # split_on sep xs
      else (case split_on sep xs of [] \<Rightarrow> [[x]] | y # ys \<Rightarrow> (x # y) # ys))"

definition segments :: "string \<Rightarrow> string list" where
  "segments p = filter (\<lambda>s. s \<noteq> []) (split_on (CHR ''/'') p)"

datatype seg = Lit string | Par string

definition seg_of :: "string \<Rightarrow> seg" where
  "seg_of s =
     (if HasPrefix s ''{'' \<and> HasSuffix s ''}'' then Par (take (length s - 2) (drop 1 s))
      else Lit s)"

definition pattern :: "string \<Rightarrow> seg list" where
  "pattern p = map seg_of (segments p)"

text \<open>\<open>match_prefix\<close> gives the shape of the match (0 for a literal, 1 for a parameter),
  the parameters bound and the segments left over.\<close>

fun match_prefix ::
  "seg list \<Rightarrow> string list \<Rightarrow> (nat list \<times> (string \<times> string) list \<times> string list) option" where
  "match_prefix [] ss = Some ([], [], ss)"
| "match_prefix (p # ps) [] = None"
| "match_prefix (Lit l # ps) (s # ss) =
     (if l = s then
        (case match_prefix ps ss of
           None \<Rightarrow> None | Some (sh, b, rest) \<Rightarrow> Some (0 # sh, b, rest))
      else None)"
| "match_prefix (Par n # ps) (s # ss) =
     (case match_prefix ps ss of
        None \<Rightarrow> None | Some (sh, b, rest) \<Rightarrow> Some (1 # sh, (n, s) # b, rest))"

fun shape_le :: "nat list \<Rightarrow> nat list \<Rightarrow> bool" where
  "shape_le [] _ = True"
| "shape_le (a # as) [] = False"
| "shape_le (a # as) (b # bs) = (a < b \<or> (a = b \<and> shape_le as bs))"

datatype routed =
    Found string "(string \<times> string) list"
  | NotFound404
  | MethodNotAllowed405

fun with_params :: "(string \<times> string) list \<Rightarrow> routed \<Rightarrow> routed" where
  "with_params b (Found h ps) = Found h (b @ ps)"
| "with_params b r = r"

text \<open>A candidate: the shape of its match and, when it takes the method, where the
  request goes.\<close>

type_synonym candidate = "nat list \<times> routed option"

fun best :: "(nat list \<times> routed) \<Rightarrow> (nat list \<times> routed) list \<Rightarrow> routed" where
  "best b [] = snd b"
| "best b (c # cs) = best (if shape_le (fst c) (fst b) then c else b) cs"

definition pick :: "candidate option list \<Rightarrow> routed" where
  "pick xs =
     (let cs = List.map_filter id xs;
          takers = List.map_filter (\<lambda>c. map_option (Pair (fst c)) (snd c)) cs
      in case cs of
           [] \<Rightarrow> NotFound404
         | _ # _ \<Rightarrow> (case takers of [] \<Rightarrow> MethodNotAllowed405 | t # ts \<Rightarrow> best t ts))"

datatype entry = Endpoint string string string | Mounted string mux
and mux = ChiMux "entry list"

fun candidate_of :: "entry \<Rightarrow> string \<Rightarrow> string list \<Rightarrow> candidate option"
and ServeHTTP :: "mux \<Rightarrow> string \<Rightarrow> string list \<Rightarrow> routed" where
  "candidate_of (Endpoint m pat h) method ss =
     (case match_prefix (pattern pat) ss of
        Some (sh, b, []) \<Rightarrow> Some (sh, if m = method then Some (Found h b) else None)
      | _ \<Rightarrow> None)"
| "candidate_of (Mounted pat sub) method ss =
     (case match_prefix (pattern pat) ss of
        None \<Rightarrow> None
      | Some (sh, b, rest) \<Rightarrow>
          Some (if rest = [] then sh else sh @ [2],
                Some (with_params b (ServeHTTP sub method rest))))"
| "ServeHTTP (ChiMux es) method ss = pick (map (\<lambda>e. candidate_of e method ss) es)"

definition serve :: "mux \<Rightarrow> string \<Rightarrow> string \<Rightarrow> routed" where
  "serve m method path = ServeHTTP m method (segments path)"

definition mux_handle :: "string \<Rightarrow> string \<Rightarrow> string \<Rightarrow> mux \<Rightarrow> mux" where
  "mux_handle method pat h m = (case m of ChiMux es \<Rightarrow> ChiMux (es @ [Endpoint method pat h]))"

definition mux_Mount :: "string \<Rightarrow> mux \<Rightarrow> mux \<Rightarrow> mux" where
  "mux_Mount pat sub m = (case m of ChiMux es \<Rightarrow> ChiMux (es @ [Mounted pat sub]))"

section \<open>Router (framework/router.go)\<close>

record RouteInfo =
  Method :: string
  Path :: string
  Handler :: string

record Router =
  Mux :: mux
  routes :: "RouteInfo list"
  prefix :: string

definition NewRouter :: Router where
  "NewRouter = \<lparr>Mux = ChiMux [], routes = [], prefix = []\<rparr>"

definition addRoute :: "string \<Rightarrow> string \<Rightarrow> string \<Rightarrow> Router \<Rightarrow> Router" where
  "addRoute method path handler r =
     r\<lparr>routes := routes r @ [\<lparr>Method = method, Path = prefix r @ path, Handler = handler\<rparr>]\<rparr>"

text \<open>An action given to a verb registration is named by a label; \<open>actionName\<close>
  ignores it.\<close>

definition actionName :: "string \<Rightarrow> string" where
  "actionName _ = ''Action''"

definition verb :: "string \<Rightarrow> string \<Rightarrow> string \<Rightarrow> Router \<Rightarrow> Router" where
  "verb method path handler r =
     (let r1 = addRoute method path (actionName handler) r
      in r1\<lparr>Mux := mux_handle method (prefix r1 @ path) handler (Mux r1)\<rparr>)"

definition GET :: "string \<Rightarrow> string \<Rightarrow> Router \<Rightarrow> Router" where
  "GET = verb ''GET''"

definition POST :: "string \<Rightarrow> string \<Rightarrow> Router \<Rightarrow> Router" where
  "POST = verb ''POST''"

definition PUT :: "string \<Rightarrow> string \<Rightarrow> Router \<Rightarrow> Router" where
  "PUT = verb ''PUT''"

definition PATCH :: "string \<Rightarrow> string \<Rightarrow> Router \<Rightarrow> Router" where
  "PATCH = verb ''PATCH''"

definition DELETE :: "string \<Rightarrow> string \<Rightarrow> Router \<Rightarrow> Router" where
  "DELETE = verb ''DELETE''"

definition Namespace :: "string \<Rightarrow> (Router \<Rightarrow> Router) \<Rightarrow> Router \<Rightarrow> Router" where
  "Namespace pre fn r =
     (let subRouter = fn \<lparr>Mux = ChiMux [], routes = routes r, prefix = prefix r @ pre\<rparr>
      in r\<lparr>routes := routes subRouter, Mux := mux_Mount pre (Mux subRouter) (Mux r)\<rparr>)"

text \<open>
  A controller is a value of some Go type; the router sees the name \<open>%T\<close> prints for
  it and which of the seven action methods its type has.
\<close>

datatype action = Index | Create | New | Show | Edit | Update | Destroy

record controller =
  typeName :: string
  implements :: "action set"

definition controllerName :: "controller \<Rightarrow> string" where
  "controllerName c =
     (let n = (if HasPrefix (typeName c) ''*'' then drop 1 (typeName c) else typeName c);
          parts = split_on (CHR ''.'') n
      in if length parts > 1 then last parts else n)"

text \<open>
  One conventional action inside the closure given to \<open>Mux.Route\<close>: when the controller
  has the method, the route is recorded on the router and installed in the sub-mux.
  The state is the router with the sub-mux under construction.
\<close>

definition resource_action ::
  "controller \<Rightarrow> action \<Rightarrow> (string \<times> string) list \<Rightarrow> string \<Rightarrow> string \<Rightarrow> string \<Rightarrow>
     Router \<times> mux \<Rightarrow> Router \<times> mux" where
  "resource_action c a verbs pre sub label st =
     (if a \<in> implements c then
        fold (\<lambda>(method, pat) (r, m).
                (addRoute method (pre @ sub) (controllerName c @ label) r,
                 mux_handle method pat (controllerName c @ label) m))
             verbs st
      else st)"

definition Resources ::
  "string \<Rightarrow> controller \<Rightarrow> (Router \<Rightarrow> Router) option \<Rightarrow> Router \<Rightarrow> Router" where
  "Resources name c fn r =
     (let pre = ''/'' @ name;
          s1 = resource_action c Index [(''GET'', ''/'')] pre [] ''#Index'' (r, ChiMux []);
          s2 = resource_action c Create [(''POST'', ''/'')] pre [] ''#Create'' s1;
          s3 = resource_action c New [(''GET'', ''/new'')] pre ''/new'' ''#New'' s2;
          s4 = resource_action c Show [(''GET'', ''/{id}'')] pre ''/{id}'' ''#Show'' s3;
          s5 = resource_action c Edit [(''GET'', ''/{id}/edit'')] pre ''/{id}/edit'' ''#Edit'' s4;
          s6 = resource_action c Update [(''PUT'', ''/{id}''), (''PATCH'', ''/{id}'')]
                 pre ''/{id}'' ''#Update'' s5;
          s7 = resource_action c Destroy [(''DELETE'', ''/{id}'')] pre ''/{id}'' ''#Destroy'' s6;
          s8 = (case fn of
                  None \<Rightarrow> s7
                | Some f \<Rightarrow>
                    (let nestedRouter =
                           f \<lparr>Mux = ChiMux [], routes = routes (fst s7),
                              prefix = pre @ ''/{'' @ singleName name @ ''_id}''\<rparr>
                     in ((fst s7)\<lparr>routes := routes nestedRouter\<rparr>,
                         mux_Mount (''/{'' @ singleName name @ ''_id}'') (Mux nestedRouter)
                           (snd s7))))
      in (fst s8)\<lparr>Mux := mux_Mount pre (snd s8) (Mux (fst s8))\<rparr>)"

definition GetRoutes :: "Router \<Rightarrow> RouteInfo list" where
  "GetRoutes r = routes r"

section \<open>Middleware (framework/middleware.go)\<close>

text \<open>A handler is what it does to the sink for a request, a call that can panic.\<close>

type_synonym handler = "response \<Rightarrow> request \<Rightarrow> response result"

subsection \<open>CSRF\<close>

text \<open>\<open>token\<close> is the value \<open>generateCSRFToken\<close> draws for this request; the cookie is
  added with \<open>http.SetCookie\<close>.\<close>

definition csrf_cookie :: "string \<Rightarrow> string" where
  "csrf_cookie token = ''csrf_token='' @ token @ ''; Path=/; SameSite=Lax''"

definition CSRF :: "string \<Rightarrow> handler \<Rightarrow> handler" where
  "CSRF token next w r =
     (let ct = Header_Get (ReqHeader r) ''Content-Type'' in
      if Contains ct ''application/json'' then next w r
      else if ReqMethod r = ''GET'' \<or> ReqMethod r = ''HEAD'' \<or> ReqMethod r = ''OPTIONS'' then
        (case Cookie r ''csrf_token'' of
           None \<Rightarrow> next (Header_Add ''Set-Cookie'' (csrf_cookie token) w) r
         | Some _ \<Rightarrow> next w r)
      else
        (case Cookie r ''csrf_token'' of
           None \<Rightarrow> http_Error w ''CSRF token missing'' 403
         | Some cookie \<Rightarrow>
             (let formToken = FormValue r ''csrf_token'';
                  formToken = (if formToken = [] then Header_Get (ReqHeader r) ''X-CSRF-Token''
                               else formToken)
              in if formToken \<noteq> cookie then http_Error w ''CSRF token invalid'' 403
                 else next w r)))"

text \<open>The token a request submits: the form field, or the header when the form field
  is empty.\<close>

definition submitted_token :: "request \<Rightarrow> string" where
  "submitted_token r =
     (if FormValue r ''csrf_token'' = [] then Header_Get (ReqHeader r) ''X-CSRF-Token''
      else FormValue r ''csrf_token'')"

subsection \<open>Rate limiting\<close>

text \<open>
  Times and durations are counted in nanoseconds. \<open>Seconds\<close> is the whole seconds
  \<open>int(window.Seconds())\<close> keeps (the conversion truncates toward zero; the
  floating-point value it truncates is exact for a window of whole seconds).
\<close>

definition Seconds :: "int \<Rightarrow> int" where
  "Seconds d = (if d < 0 then - ((- d) div 1000000000) else d div 1000000000)"

definition too_many :: "int \<Rightarrow> response \<Rightarrow> response result" where
  "too_many window w =
     (case WriteHeader 429 (Header_Set ''Retry-After'' (Itoa (Seconds window)) w) of
        Panicked p w' \<Rightarrow> Panicked p w'
      | Done w' \<Rightarrow> Done (Write (Text ''Rate limit exceeded'') w'))"

text \<open>
  The shared store is a collaborator: \<open>redisRateLimit\<close> sends it one pipeline and
  reads either an error or the cardinality the third command reports. The model takes
  that outcome as a parameter.
\<close>

definition redisRateLimit ::
  "response \<Rightarrow> request \<Rightarrow> handler \<Rightarrow> int \<Rightarrow> int \<Rightarrow> string + int \<Rightarrow> response result" where
  "redisRateLimit w r next limit window exec =
     (case exec of
        Inl err \<Rightarrow> next w r
      | Inr count \<Rightarrow> if count > limit then too_many window w else next w r)"

text \<open>
  \<open>RateLimit limit window\<close> serving one request: \<open>redis\<close> is \<open>None\<close> when
  \<open>cache.Redis\<close> is nil and else the outcome of the pipeline, \<open>counts\<close> is the map
  of the closure (an absent key reads as the empty slice), \<open>now\<close> the clock. The
  result is the map after the request and the sink.
\<close>

definition RateLimit ::
  "int \<Rightarrow> int \<Rightarrow> (string + int) option \<Rightarrow> handler \<Rightarrow> (string \<Rightarrow> int list) \<Rightarrow> int \<Rightarrow>
     response \<Rightarrow> request \<Rightarrow> (string \<Rightarrow> int list) \<times> response result" where
  "RateLimit limit window redis next counts now w r =
     (case redis of
        Some exec \<Rightarrow> (counts, redisRateLimit w r next limit window exec)
      | None \<Rightarrow>
          (let ip = RemoteAddr r;
               cutoff = now - window;
               valid = filter (\<lambda>t. t > cutoff) (counts ip) @ [now];
               counts' = counts(ip := valid);
               count = int (length valid)
           in if count > limit then (counts', too_many window w)
              else (counts', next w r)))"

text \<open>The middleware serving a sequence of requests, each on a sink of its own: the
  map of the closure goes from one request to the next.\<close>

fun RateLimit_run ::
  "int \<Rightarrow> int \<Rightarrow> handler \<Rightarrow> (string \<Rightarrow> int list) \<Rightarrow>
     ((string + int) option \<times> int \<times> request) list \<Rightarrow> response result list" where
  "RateLimit_run limit window next counts [] = []"
| "RateLimit_run limit window next counts ((redis, now, r) # rest) =
     snd (RateLimit limit window redis next counts now NewRecorder r)
       # RateLimit_run limit window next
           (fst (RateLimit limit window redis next counts now NewRecorder r)) rest"

section \<open>A handler that binds its input (_example/main.go)\<close>

text \<open>
  The \<open>Create\<close> actions of the example application and of the README start with
  \<open>if err := ctx.Bind(&input); err != nil { return err }\<close> and go on with the rest of
  the body. \<open>bind_action\<close> is that shape, the rest of the body being a parameter.
\<close>

definition bind_action :: "'v codec \<Rightarrow> 'v \<Rightarrow> ('v \<Rightarrow> Action) \<Rightarrow> Action" where
  "bind_action lib input rest ctx =
     (case Bind lib ctx input of
        BindPanic m \<Rightarrow> Panic m ctx
      | Bound (Some err) _ \<Rightarrow> Return (Some err) ctx
      | Bound None t \<Rightarrow> rest (case t of None \<Rightarrow> input | Some v \<Rightarrow> v) ctx)"

definition nonempty_at :: "(string \<rightharpoonup> string list) \<Rightarrow> string \<Rightarrow> bool" where
  "nonempty_at m k = (case m k of None \<Rightarrow> False | Some ms \<Rightarrow> ms \<noteq> [])"

section \<open>Sample requests and contexts\<close>

definition plain_request :: request where
  "plain_request =
     \<lparr>ReqMethod = ''POST'', ReqPath = ''/users'', ReqHeader = Map.empty,
      ReqCookies = [], ReqForm = Map.empty, ParseFormError = None, ReqBody = Inr [],
      RemoteAddr = ''10.0.0.1:4000''\<rparr>"

definition json_request :: request where
  "json_request =
     plain_request\<lparr>ReqHeader := [''Content-Type'' \<mapsto> ''application/json'']\<rparr>"







text \<open>
  A target with the fields \<open>Name\<close> and \<open>Email\<close>, and what the JSON decoder and the
  validator do on the inputs of the samples: the body \<open>{"name":"Ann"}\<close> fills
  \<open>Name\<close>, any other body is refused as truncated, and the validator reports the
  tag \<open>required\<close> on an empty \<open>Email\<close>.
\<close>

record signup =
  Name :: string
  Email :: string

definition blank_signup :: signup where
  "blank_signup = \<lparr>Name = [], Email = []\<rparr>"

definition sample_codec :: "signup codec" where
  \<open>sample_codec =
     \<lparr>Unmarshal = (\<lambda>bytes v. if bytes = ''{"name":"Ann"}'' then Inr (v\<lparr>Name := ''Ann''\<rparr>)
                              else Inl ''unexpected end of JSON input''),
      Marshal = (\<lambda>m. Inr ''{}''),
      Struct = (\<lambda>v. if Email v = [] then
                       ValidationErrors [\<lparr>Field = ''Email'', Tag = ''required'', Param = []\<rparr>]
                     else Valid)\<rparr>\<close>

text \<open>The rest of \<open>UsersController.Create\<close> of the example application.\<close>

definition create_body :: "signup \<Rightarrow> Action" where
  "create_body input ctx =
     JSON 201 (GMap [(''user'', GMap [(''name'', GString (Name input)),
                                      (''email'', GString (Email input))])]) ctx"

definition ann_request :: request where
  \<open>ann_request = json_request\<lparr>ReqBody := Inr ''{"name":"Ann"}''\<rparr>\<close>

definition malformed_request :: request where
  \<open>malformed_request = json_request\<lparr>ReqBody := Inr ''{"name":''\<rparr>\<close>

definition broken_form_request :: request where
  "broken_form_request =
     plain_request\<lparr>ParseFormError := Some ''invalid semicolon separator in query''\<rparr>"

text \<open>A downstream handler, requests that post a form, a second client address, and
  request sequences for the rate limiter.\<close>

definition downstream :: handler where
  "downstream w r = Done (Write (Text ''ok'') w)"

definition form_post :: "(string \<times> string) list \<Rightarrow> string \<Rightarrow> request" where
  "form_post cookies tok =
     plain_request\<lparr>ReqCookies := cookies, ReqForm := [''csrf_token'' \<mapsto> [tok]]\<rparr>"

definition other_request :: request where
  "other_request = plain_request\<lparr>RemoteAddr := ''10.0.0.2:4000''\<rparr>"

definition five_earlier :: "string \<Rightarrow> int list" where
  "five_earlier ip = (if ip = ''10.0.0.1:4000'' then [1, 2, 3, 4, 5] else [])"

definition outage :: "((string + int) option \<times> int \<times> request) list" where
  "outage = map (\<lambda>t. (Some (Inl ''connection refused''), t, plain_request)) [1, 2, 3, 4, 5, 6]"

definition local_burst :: "((string + int) option \<times> int \<times> request) list" where
  "local_burst = map (\<lambda>t. (None, t, plain_request)) [1, 2, 3, 4, 5, 6]"

text \<open>Controllers and routers: a controller with \<open>Index\<close> and \<open>Show\<close> only, the
  nested resources of the example application at the top level and inside a
  namespace.\<close>

definition widgets :: controller where
  "widgets = \<lparr>typeName = ''*controllers.WidgetsController'', implements = {Index, Show}\<rparr>"

definition posts :: controller where
  "posts = \<lparr>typeName = ''*main.PostsController'',
             implements = {Index, Show, Create, Update, Destroy}\<rparr>"

definition comments :: controller where
  "comments = \<lparr>typeName = ''*main.CommentsController'', implements = {Index, Create}\<rparr>"

definition widgets_router :: Router where
  "widgets_router = Resources ''widgets'' widgets None NewRouter"

definition posts_router :: Router where
  "posts_router = Resources ''posts'' posts (Some (Resources ''comments'' comments None)) NewRouter"

definition api_posts_router :: Router where
  "api_posts_router =
     Namespace ''/api'' (Resources ''posts'' posts (Some (Resources ''comments'' comments None)))
       NewRouter"

text \<open>Actions that panic, after a write and before any, and an application in
  development mode.\<close>

definition write_then_panic :: Action where
  "write_then_panic ctx =
     (case Status 200 ctx of
        Return _ ctx' \<Rightarrow> Panic ''boom'' ctx'
      | Panic p ctx' \<Rightarrow> Panic p ctx')"

definition panic_at_once :: Action where
  "panic_at_once ctx = Panic ''boom'' ctx"

definition dev_app :: "App option" where
  "dev_app = Some \<lparr>Renderer = None, Config = Some \<lparr>Env = ''development''\<rparr>\<rparr>"




section \<open>Properties of the naming utility\<close>

lemma HasSuffix_append: "HasSuffix (s @ suf) suf"
  by (simp add: HasSuffix_def)

lemma HasSuffix_iff: "HasSuffix s suf \<longleftrightarrow> (\<exists>p. s = p @ suf)"
proof
  assume h: "HasSuffix s suf"
  have "s = take (length s - length suf) s @ drop (length s - length suf) s"
    by simp
  with h show "\<exists>p. s = p @ suf"
    unfolding HasSuffix_def by metis
next
  assume "\<exists>p. s = p @ suf"
  then show "HasSuffix s suf"
    by (auto simp: HasSuffix_def)
qed

text \<open>
  C5. Pluralisation replaces a final "y" by "ies", appends "es" to a word that ends in
  "s" or "x", and appends "s" to any other word; singularisation maps a final "ies" to
  "y", drops the last two characters of a word in "ses" or "xes", and drops any other
  final "s"; and singularising the plural gives the word back for "cat", "box" and
  "city".
\<close>

theorem pluralize_singularize_regular:
  "(\<forall>p. pluralize (p @ ''y'') = p @ ''ies'')
   \<and> (\<forall>s. (HasSuffix s ''s'' \<or> HasSuffix s ''x'') \<longrightarrow> pluralize s = s @ ''es'')
   \<and> (\<forall>s. \<not> HasSuffix s ''y'' \<and> \<not> HasSuffix s ''s'' \<and> \<not> HasSuffix s ''x''
          \<longrightarrow> pluralize s = s @ ''s'')
   \<and> (\<forall>p. singularize (p @ ''ies'') = p @ ''y'')
   \<and> (\<forall>p. singularize (p @ ''ses'') = p @ ''s'')
   \<and> (\<forall>p. singularize (p @ ''xes'') = p @ ''x'')
   \<and> (\<forall>p. \<not> HasSuffix (p @ ''s'') ''ies'' \<and> \<not> HasSuffix (p @ ''s'') ''ses''
            \<and> \<not> HasSuffix (p @ ''s'') ''xes'' \<longrightarrow> singularize (p @ ''s'') = p)
   \<and> pluralize ''cat'' = ''cats'' \<and> singularize ''cats'' = ''cat''
   \<and> pluralize ''box'' = ''boxes'' \<and> singularize ''boxes'' = ''box''
   \<and> pluralize ''city'' = ''cities'' \<and> singularize ''cities'' = ''city''"
proof -
  have y: "\<And>p. pluralize (p @ ''y'') = p @ ''ies''"
    by (simp add: pluralize_def HasSuffix_def)
  have sx: "\<And>s. HasSuffix s ''s'' \<or> HasSuffix s ''x'' \<Longrightarrow> pluralize s = s @ ''es''"
    by (auto simp: pluralize_def HasSuffix_iff)
  have other: "\<And>s. \<not> HasSuffix s ''y'' \<and> \<not> HasSuffix s ''s'' \<and> \<not> HasSuffix s ''x''
      \<Longrightarrow> pluralize s = s @ ''s''"
    by (simp add: pluralize_def)
  have ies: "\<And>p. singularize (p @ ''ies'') = p @ ''y''"
    by (simp add: singularize_def HasSuffix_def)
  have ses: "\<And>p. singularize (p @ ''ses'') = p @ ''s''"
    by (simp add: singularize_def HasSuffix_def)
  have xes: "\<And>p. singularize (p @ ''xes'') = p @ ''x''"
    by (simp add: singularize_def HasSuffix_def)
  have s: "\<And>p. \<not> HasSuffix (p @ ''s'') ''ies'' \<and> \<not> HasSuffix (p @ ''s'') ''ses''
      \<and> \<not> HasSuffix (p @ ''s'') ''xes'' \<Longrightarrow> singularize (p @ ''s'') = p"
    by (simp add: singularize_def HasSuffix_append)
  have ex: "pluralize ''cat'' = ''cats'' \<and> singularize ''cats'' = ''cat''
     \<and> pluralize ''box'' = ''boxes'' \<and> singularize ''boxes'' = ''box''
     \<and> pluralize ''city'' = ''cities'' \<and> singularize ''cities'' = ''city''"
    by (simp add: pluralize_def singularize_def HasSuffix_def)
  from y sx other ies ses xes s ex show ?thesis
    by blast
qed

theorem pluralize_singularize_regular_witness:
  "HasSuffix ''box'' ''x'' \<and> pluralize ''box'' = ''boxes''
   \<and> \<not> HasSuffix ''cat'' ''y'' \<and> \<not> HasSuffix ''cat'' ''s'' \<and> \<not> HasSuffix ''cat'' ''x''
   \<and> pluralize ''cat'' = ''cats''
   \<and> \<not> HasSuffix (''cat'' @ ''s'') ''ies'' \<and> \<not> HasSuffix (''cat'' @ ''s'') ''ses''
   \<and> \<not> HasSuffix (''cat'' @ ''s'') ''xes'' \<and> singularize (''cat'' @ ''s'') = ''cat''"
  using pluralize_singularize_regular
  by (simp add: HasSuffix_def)


section \<open>Properties of the response sink\<close>

lemma final_code_accepted: "final_code code \<Longrightarrow> checkWriteHeaderCode code = None"
  by (auto simp: final_code_def checkWriteHeaderCode_def)

lemma WriteHeader_sent: "wroteHeader w \<Longrightarrow> WriteHeader code w = Done w"
  by (simp add: WriteHeader_def)

lemma WriteHeader_final:
  "\<not> wroteHeader w \<Longrightarrow> final_code code \<Longrightarrow>
   WriteHeader code w = Done (w\<lparr>wroteHeader := True, status := code, sentHeader := header w\<rparr>)"
  by (auto simp: WriteHeader_def final_code_accepted) (auto simp: final_code_def)


lemma final_code_numerals [simp]:
  "final_code 200" "final_code 201" "final_code 302" "final_code 403" "final_code 422"
  "final_code 429" "final_code 500"
  by (simp_all add: final_code_def)

lemma WriteHeader_cases:
  "wroteHeader w \<or> final_code code \<Longrightarrow>
   WriteHeader code w =
     Done (if wroteHeader w then w
           else w\<lparr>wroteHeader := True, status := code, sentHeader := header w\<rparr>)"
  by (auto simp: WriteHeader_sent WriteHeader_final)

lemma wroteHeader_Write [simp]: "wroteHeader (Write c w)"
  by (simp add: Write_def Let_def)

lemma sent_Header_Set [simp]:
  "wroteHeader (Header_Set k v w) = wroteHeader w"
  "status (Header_Set k v w) = status w"
  "sentHeader (Header_Set k v w) = sentHeader w"
  "body (Header_Set k v w) = body w"
  by (simp_all add: Header_Set_def)

lemma sent_Header_Del [simp]:
  "wroteHeader (Header_Del k w) = wroteHeader w"
  "status (Header_Del k w) = status w"
  "sentHeader (Header_Del k w) = sentHeader w"
  "body (Header_Del k w) = body w"
  by (simp_all add: Header_Del_def)








lemma JSON_returns:
  assumes "wroteHeader (Response c) \<or> final_code st"
  shows "JSON st v c =
     (let w = (if wroteHeader (Response c)
               then Header_Set ''Content-Type'' ''application/json'' (Response c)
               else (Header_Set ''Content-Type'' ''application/json'' (Response c))
                      \<lparr>wroteHeader := True, status := st,
                       sentHeader := header (Header_Set ''Content-Type'' ''application/json''
                                               (Response c))\<rparr>);
          c1 = c\<lparr>Response := w, statusCode := st, written := True\<rparr>
      in case encode_error v of
           Some m \<Rightarrow> Return (Some (PlainErr m)) c1
         | None \<Rightarrow> Return None (c1\<lparr>Response := Write (JSONDoc v) w\<rparr>))"
  using assms
  by (simp add: JSON_def WriteHeader_cases [of "Header_Set ''Content-Type'' ''application/json'' (Response c)" st] Let_def)

lemma JSON_fresh:
  "\<not> wroteHeader (Response c) \<Longrightarrow> final_code st \<Longrightarrow> encode_error v = None \<Longrightarrow>
   \<not> (\<exists>p c'. JSON st v c = Panic p c')
   \<and> status (Response (context_of (JSON st v c))) = st
   \<and> body (Response (context_of (JSON st v c))) = body (Response c) @ [JSONDoc v]
   \<and> sentHeader (Response (context_of (JSON st v c))) ''Content-Type''
       = Some [''application/json'']"
  by (simp add: JSON_returns Let_def Write_def Header_Set_def)

lemma http_Error_returns:
  "wroteHeader w \<or> final_code code \<Longrightarrow> \<not> panicked (http_Error w msg code)"
  by (simp add: http_Error_def WriteHeader_cases)

lemma http_Error_fresh:
  "\<not> wroteHeader w \<Longrightarrow> final_code code \<Longrightarrow>
   \<not> panicked (http_Error w msg code)
   \<and> status (state_of (http_Error w msg code)) = code
   \<and> body (state_of (http_Error w msg code)) = body w @ [Text (msg @ [CHR 0x0A])]
   \<and> sentHeader (state_of (http_Error w msg code)) ''Content-Type''
       = Some [''text/plain; charset=utf-8'']"
  by (simp add: http_Error_def WriteHeader_final Write_def Header_Set_def Header_Del_def)

section \<open>The writers and the write-once flag\<close>























section \<open>The dispatcher's mapping of typed failures\<close>








section \<open>Request binding\<close>

lemma add_field_error_keeps: "nonempty_at m k \<Longrightarrow> nonempty_at (add_field_error e m) k"
  by (auto simp: nonempty_at_def add_field_error_def split: option.splits)

lemma add_field_error_adds: "nonempty_at (add_field_error e m) (Field e)"
  by (simp add: nonempty_at_def add_field_error_def)

lemma fold_add_field_error:
  "(\<exists>e \<in> set es. Field e = k) \<or> nonempty_at m k \<Longrightarrow>
   nonempty_at (fold add_field_error es m) k"
proof (induction es arbitrary: m)
  case Nil
  then show ?case by simp
next
  case (Cons e es)
  show ?case
  proof (cases "Field e = k \<or> nonempty_at m k")
    case True
    then have "nonempty_at (add_field_error e m) k"
      using add_field_error_adds [of e m] add_field_error_keeps [of m k e] by auto
    then show ?thesis using Cons.IH [of "add_field_error e m"] by simp
  next
    case False
    with Cons.prems have "\<exists>e \<in> set es. Field e = k" by auto
    then show ?thesis using Cons.IH [of "add_field_error e m"] by simp
  qed
qed

lemma IsJSON_json_request: "IsJSON (NewContext w (json_request\<lparr>ReqBody := b\<rparr>) a)"
  by (simp add: IsJSON_def NewContext_def json_request_def plain_request_def Header_Get_def
      HasPrefix_def)

lemma not_IsJSON_plain: "\<not> IsJSON (NewContext w (plain_request\<lparr>ParseFormError := b\<rparr>) a)"
  by (simp add: IsJSON_def NewContext_def plain_request_def Header_Get_def)

text \<open>
  C10. \<open>Bind\<close> keeps decoding failures and validation failures apart. Whenever the
  decoding step returns an error (in particular a JSON body the decoder refuses, and a
  form that \<open>ParseForm\<close> refuses), \<open>Bind\<close> returns an \<open>HTTPError\<close> with code 400,
  the decoder's message and a nil field-error map. An \<open>HTTPError\<close> with code 422
  comes out of \<open>Bind\<close> only when decoding succeeded and the validator reported field
  errors, and then it carries the map built from them.
\<close>

theorem Bind_decode_failure_400:
  "(\<forall>e. (if IsJSON c then BindJSON lib c v else BindForm lib c v) = Inl e \<longrightarrow>
        Bind lib c v = Bound (Some (HTTPErr \<lparr>Code = 400, Message = e, Errors = None\<rparr>)) None)
   \<and> (\<forall>bytes e. IsJSON c \<and> ReqBody (Request c) = Inr bytes \<and> Unmarshal lib bytes v = Inl e \<longrightarrow>
        Bind lib c v = Bound (Some (HTTPErr \<lparr>Code = 400, Message = e, Errors = None\<rparr>)) None)
   \<and> (\<forall>e. \<not> IsJSON c \<and> ParseFormError (Request c) = Some e \<longrightarrow>
        Bind lib c v = Bound (Some (HTTPErr \<lparr>Code = 400, Message = e, Errors = None\<rparr>)) None)
   \<and> (\<forall>h t. Bind lib c v = Bound (Some (HTTPErr h)) t \<and> Code h = 422 \<longrightarrow>
        (\<exists>v' es. (if IsJSON c then BindJSON lib c v else BindForm lib c v) = Inr v'
                 \<and> Struct lib v' = ValidationErrors es
                 \<and> Errors h = Some (fold add_field_error es Map.empty)))"
proof -
  have a: "\<And>e. (if IsJSON c then BindJSON lib c v else BindForm lib c v) = Inl e \<Longrightarrow>
        Bind lib c v = Bound (Some (HTTPErr \<lparr>Code = 400, Message = e, Errors = None\<rparr>)) None"
    by (simp add: Bind_def)
  have b: "\<And>bytes e. IsJSON c \<and> ReqBody (Request c) = Inr bytes \<and> Unmarshal lib bytes v = Inl e \<Longrightarrow>
        Bind lib c v = Bound (Some (HTTPErr \<lparr>Code = 400, Message = e, Errors = None\<rparr>)) None"
    by (simp add: Bind_def BindJSON_def)
  have c: "\<And>e. \<not> IsJSON c \<and> ParseFormError (Request c) = Some e \<Longrightarrow>
        Bind lib c v = Bound (Some (HTTPErr \<lparr>Code = 400, Message = e, Errors = None\<rparr>)) None"
    by (simp add: Bind_def BindForm_def)
  have d: "\<And>h t. Bind lib c v = Bound (Some (HTTPErr h)) t \<and> Code h = 422 \<Longrightarrow>
        (\<exists>v' es. (if IsJSON c then BindJSON lib c v else BindForm lib c v) = Inr v'
                 \<and> Struct lib v' = ValidationErrors es
                 \<and> Errors h = Some (fold add_field_error es Map.empty))"
    by (auto simp: Bind_def UnprocessableEntity_def split: sum.splits validation.splits)
  from a b c d show ?thesis by blast
qed

theorem Bind_decode_failure_400_witness:
  \<open>IsJSON (NewContext NewRecorder malformed_request None)
   \<and> ReqBody (Request (NewContext NewRecorder malformed_request None)) = Inr ''{"name":''
   \<and> Unmarshal sample_codec ''{"name":'' blank_signup = Inl ''unexpected end of JSON input''
   \<and> Bind sample_codec (NewContext NewRecorder malformed_request None) blank_signup =
       Bound (Some (HTTPErr \<lparr>Code = 400, Message = ''unexpected end of JSON input'',
                             Errors = None\<rparr>)) None
   \<and> \<not> IsJSON (NewContext NewRecorder broken_form_request None)
   \<and> ParseFormError (Request (NewContext NewRecorder broken_form_request None))
       = Some ''invalid semicolon separator in query''
   \<and> Bind sample_codec (NewContext NewRecorder broken_form_request None) blank_signup =
       Bound (Some (HTTPErr \<lparr>Code = 400, Message = ''invalid semicolon separator in query'',
                             Errors = None\<rparr>)) None\<close>
proof -
  let ?c = "NewContext NewRecorder malformed_request None"
  let ?d = "NewContext NewRecorder broken_form_request None"
  have j: \<open>IsJSON ?c \<and> ReqBody (Request ?c) = Inr ''{"name":''
           \<and> Unmarshal sample_codec ''{"name":'' blank_signup
               = Inl ''unexpected end of JSON input''\<close>
    using IsJSON_json_request [of NewRecorder _ None]
    by (simp add: malformed_request_def NewContext_def sample_codec_def)
  have f: "\<not> IsJSON ?d \<and> ParseFormError (Request ?d)
             = Some ''invalid semicolon separator in query''"
    using not_IsJSON_plain [of NewRecorder _ None]
    by (simp add: broken_form_request_def NewContext_def)
  from j f Bind_decode_failure_400 [of ?c sample_codec blank_signup]
       Bind_decode_failure_400 [of ?d sample_codec blank_signup]
  show ?thesis
    by blast
qed

text \<open>
  C6. When the body decodes into the target and the validator reports a field error
  for \<open>Email\<close> (as it does for the body \<open>{"name":"Ann"}\<close> and a target that requires
  \<open>Email\<close>), \<open>Bind\<close> returns the \<open>UnprocessableEntity\<close> error with code 422 whose
  map has a non-empty list of messages under \<open>Email\<close>; a handler that returns the
  error of \<open>Bind\<close> is answered by the dispatcher with the JSON document
  \<open>{"errors": ...}\<close> and status 422, whatever the rest of its body is: the rest is
  not run.
\<close>

theorem Bind_missing_Email_422:
  assumes dec: "(if IsJSON (NewContext w r a) then BindJSON lib (NewContext w r a) v
                 else BindForm lib (NewContext w r a) v) = Inr v'"
    and val: "Struct lib v' = ValidationErrors es"
    and email: "\<exists>e \<in> set es. Field e = ''Email''"
  shows "Bind lib (NewContext w r a) v =
           Bound (Some (HTTPErr \<lparr>Code = 422, Message = ''Validation failed'',
                                 Errors = Some (fold add_field_error es Map.empty)\<rparr>)) (Some v')
         \<and> (case fold add_field_error es Map.empty ''Email'' of
               None \<Rightarrow> False | Some ms \<Rightarrow> ms \<noteq> [])
         \<and> ActionHandler logger stack (bind_action lib v rest) a w r =
             Served (Response (context_of (JSON 422
               (GMap [(''errors'', GFieldErrors (fold add_field_error es Map.empty))])
               (NewContext w r a))))
         \<and> (\<not> wroteHeader w \<longrightarrow>
              (case ActionHandler logger stack (bind_action lib v rest) a w r of
                 Served w' \<Rightarrow> status w' = 422
                   \<and> body w' = body w @
                       [JSONDoc (GMap [(''errors'',
                          GFieldErrors (fold add_field_error es Map.empty))])]
               | Escaped _ _ \<Rightarrow> False))"
proof -
  let ?c = "NewContext w r a"
  let ?m = "fold add_field_error es Map.empty"
  let ?err = "HTTPErr \<lparr>Code = 422, Message = ''Validation failed'', Errors = Some ?m\<rparr>"
  have b: "Bind lib ?c v = Bound (Some ?err) (Some v')"
    using dec val by (simp add: Bind_def UnprocessableEntity_def)
  have n: "nonempty_at ?m ''Email''"
    using email by (intro fold_add_field_error) simp
  have u: "\<not> written ?c" "Response ?c = w"
    by (simp_all add: NewContext_def)
  have j: "JSON 422 (GMap [(''errors'', GFieldErrors ?m)]) ?c =
             Return None (context_of (JSON 422 (GMap [(''errors'', GFieldErrors ?m)]) ?c))"
    by (simp add: JSON_returns Let_def)
  have h: "handleActionError ?c ?err =
             Done (context_of (JSON 422 (GMap [(''errors'', GFieldErrors ?m)]) ?c))"
    using u by (subst j) (simp add: handleActionError_def, subst j, simp)
  have s: "ActionHandler logger stack (bind_action lib v rest) a w r =
             Served (Response (context_of (JSON 422 (GMap [(''errors'', GFieldErrors ?m)]) ?c)))"
    using b h by (simp add: ActionHandler_def bind_action_def)
  have f: "\<not> wroteHeader w \<Longrightarrow>
           status (Response (context_of (JSON 422 (GMap [(''errors'', GFieldErrors ?m)]) ?c)))
             = 422
           \<and> body (Response (context_of (JSON 422 (GMap [(''errors'', GFieldErrors ?m)]) ?c)))
               = body w @ [JSONDoc (GMap [(''errors'', GFieldErrors ?m)])]"
    using JSON_fresh [of ?c 422 "GMap [(''errors'', GFieldErrors ?m)]"] u by simp
  from b n s f show ?thesis
    by (simp add: nonempty_at_def)
qed

theorem Bind_missing_Email_422_witness:
  \<open>(if IsJSON (NewContext NewRecorder ann_request None)
     then BindJSON sample_codec (NewContext NewRecorder ann_request None) blank_signup
     else BindForm sample_codec (NewContext NewRecorder ann_request None) blank_signup)
      = Inr \<lparr>Name = ''Ann'', Email = []\<rparr>
   \<and> Struct sample_codec \<lparr>Name = ''Ann'', Email = []\<rparr>
      = ValidationErrors [\<lparr>Field = ''Email'', Tag = ''required'', Param = []\<rparr>]
   \<and> Bind sample_codec (NewContext NewRecorder ann_request None) blank_signup =
       Bound (Some (HTTPErr \<lparr>Code = 422, Message = ''Validation failed'',
                Errors = Some [''Email'' \<mapsto> [''Email is invalid (required)'']]\<rparr>))
         (Some \<lparr>Name = ''Ann'', Email = []\<rparr>)
   \<and> (case ActionHandler True [] (bind_action sample_codec blank_signup create_body) None
              NewRecorder ann_request of
         Served w' \<Rightarrow> status w' = 422
           \<and> body w' = [JSONDoc (GMap [(''errors'',
                 GFieldErrors [''Email'' \<mapsto> [''Email is invalid (required)'']])])]
       | Escaped _ _ \<Rightarrow> False)\<close>
proof -
  let ?c = "NewContext NewRecorder ann_request None"
  let ?v = "\<lparr>Name = ''Ann'', Email = []\<rparr>"
  let ?es = "[\<lparr>Field = ''Email'', Tag = ''required'', Param = []\<rparr>]"
  have d: "(if IsJSON ?c then BindJSON sample_codec ?c blank_signup
            else BindForm sample_codec ?c blank_signup) = Inr ?v"
    using IsJSON_json_request [of NewRecorder _ None]
    by (simp add: ann_request_def BindJSON_def NewContext_def sample_codec_def blank_signup_def)
  have s: "Struct sample_codec ?v = ValidationErrors ?es"
    by (simp add: sample_codec_def)
  have e: "\<exists>e \<in> set ?es. Field e = ''Email''"
    by simp
  have m: "fold add_field_error ?es Map.empty = [''Email'' \<mapsto> [''Email is invalid (required)'']]"
    by (simp add: add_field_error_def field_message_def)
  have n: "\<not> wroteHeader NewRecorder \<and> body NewRecorder = []"
    by (simp add: NewRecorder_def)
  note th = Bind_missing_Email_422 [OF d s e, of True "[]" create_body, unfolded m]
  have b: "Bind sample_codec ?c blank_signup =
       Bound (Some (HTTPErr \<lparr>Code = 422, Message = ''Validation failed'',
                Errors = Some [''Email'' \<mapsto> [''Email is invalid (required)'']]\<rparr>))
         (Some ?v)"
    using th by blast
  have r: "case ActionHandler True [] (bind_action sample_codec blank_signup create_body) None
              NewRecorder ann_request of
         Served w' \<Rightarrow> status w' = 422
           \<and> body w' = body NewRecorder @ [JSONDoc (GMap [(''errors'',
                 GFieldErrors [''Email'' \<mapsto> [''Email is invalid (required)'']])])]
       | Escaped _ _ \<Rightarrow> False"
    using th n by blast
  have r': "case ActionHandler True [] (bind_action sample_codec blank_signup create_body) None
              NewRecorder ann_request of
         Served w' \<Rightarrow> status w' = 422
           \<and> body w' = [JSONDoc (GMap [(''errors'',
                 GFieldErrors [''Email'' \<mapsto> [''Email is invalid (required)'']])])]
       | Escaped _ _ \<Rightarrow> False"
    using r n by (simp split: served.splits)
  from d s b r' show ?thesis
    by blast
qed



section \<open>CSRF middleware\<close>

text \<open>
  C8. A request whose content type contains \<open>application/json\<close> is handed to the
  downstream handler as it is, with no check (so a JSON POST without a CSRF cookie is
  not rejected). For any other request with a method other than GET, HEAD and OPTIONS:
  without a \<open>csrf_token\<close> cookie the answer is 403; with the cookie, the request
  goes downstream when the submitted token (the form field, or the header
  \<open>X-CSRF-Token\<close> when the field is empty) equals the cookie value, and the answer
  is 403 when it differs.
\<close>

theorem CSRF_json_bypass_and_token_check:
  "(Contains (Header_Get (ReqHeader r) ''Content-Type'') ''application/json'' \<longrightarrow>
      CSRF token next w r = next w r)
   \<and> (\<not> Contains (Header_Get (ReqHeader r) ''Content-Type'') ''application/json''
        \<and> ReqMethod r \<noteq> ''GET'' \<and> ReqMethod r \<noteq> ''HEAD'' \<and> ReqMethod r \<noteq> ''OPTIONS'' \<longrightarrow>
        (case Cookie r ''csrf_token'' of
           None \<Rightarrow> CSRF token next w r = http_Error w ''CSRF token missing'' 403
         | Some cookie \<Rightarrow>
             (submitted_token r = cookie \<longrightarrow> CSRF token next w r = next w r)
             \<and> (submitted_token r \<noteq> cookie \<longrightarrow>
                  CSRF token next w r = http_Error w ''CSRF token invalid'' 403))
        \<and> (\<forall>msg. \<not> panicked (http_Error w msg 403))
        \<and> (\<not> wroteHeader w \<longrightarrow>
             (\<forall>msg. status (state_of (http_Error w msg 403)) = 403)))"
  using http_Error_fresh [of w 403] http_Error_returns [of w 403]
  by (auto simp: CSRF_def Let_def submitted_token_def split: option.splits)

theorem CSRF_json_bypass_and_token_check_witness:
  "ReqMethod json_request = ''POST'' \<and> Cookie json_request ''csrf_token'' = None
   \<and> Contains (Header_Get (ReqHeader json_request) ''Content-Type'') ''application/json''
   \<and> CSRF ''t0'' downstream NewRecorder json_request = downstream NewRecorder json_request
   \<and> \<not> Contains (Header_Get (ReqHeader (form_post [] ''abc'')) ''Content-Type'') ''application/json''
   \<and> Cookie (form_post [] ''abc'') ''csrf_token'' = None
   \<and> CSRF ''t0'' downstream NewRecorder (form_post [] ''abc'')
       = http_Error NewRecorder ''CSRF token missing'' 403
   \<and> Cookie (form_post [(''csrf_token'', ''abc'')] ''abd'') ''csrf_token'' = Some ''abc''
   \<and> submitted_token (form_post [(''csrf_token'', ''abc'')] ''abd'') = ''abd''
   \<and> CSRF ''t0'' downstream NewRecorder (form_post [(''csrf_token'', ''abc'')] ''abd'')
       = http_Error NewRecorder ''CSRF token invalid'' 403
   \<and> \<not> panicked (http_Error NewRecorder ''CSRF token invalid'' 403)
   \<and> status (state_of (http_Error NewRecorder ''CSRF token invalid'' 403)) = 403
   \<and> submitted_token (form_post [(''csrf_token'', ''abc'')] ''abc'') = ''abc''
   \<and> CSRF ''t0'' downstream NewRecorder (form_post [(''csrf_token'', ''abc'')] ''abc'')
       = downstream NewRecorder (form_post [(''csrf_token'', ''abc'')] ''abc'')"
proof -
  have j: "ReqMethod json_request = ''POST'' \<and> Cookie json_request ''csrf_token'' = None
     \<and> Contains (Header_Get (ReqHeader json_request) ''Content-Type'') ''application/json''"
    by (simp add: json_request_def plain_request_def Cookie_def Header_Get_def HasPrefix_def)
  have p: "\<And>cs t. \<not> Contains (Header_Get (ReqHeader (form_post cs t)) ''Content-Type'')
                       ''application/json''
     \<and> ReqMethod (form_post cs t) \<noteq> ''GET'' \<and> ReqMethod (form_post cs t) \<noteq> ''HEAD''
     \<and> ReqMethod (form_post cs t) \<noteq> ''OPTIONS''
     \<and> submitted_token (form_post cs t) = (if t = [] then [] else t)"
    by (simp add: form_post_def plain_request_def Header_Get_def submitted_token_def FormValue_def)
  have c0: "Cookie (form_post [] ''abc'') ''csrf_token'' = None"
    by (simp add: form_post_def Cookie_def)
  have c1: "\<And>t. Cookie (form_post [(''csrf_token'', ''abc'')] t) ''csrf_token'' = Some ''abc''"
    by (simp add: form_post_def Cookie_def)
  have n: "\<not> wroteHeader NewRecorder"
    by (simp add: NewRecorder_def)
  have 1: "CSRF ''t0'' downstream NewRecorder json_request = downstream NewRecorder json_request"
    using j CSRF_json_bypass_and_token_check [of json_request "''t0''" downstream NewRecorder]
    by blast
  have 2: "CSRF ''t0'' downstream NewRecorder (form_post [] ''abc'')
       = http_Error NewRecorder ''CSRF token missing'' 403"
    using p [of "[]" "''abc''"] c0
      CSRF_json_bypass_and_token_check [of "form_post [] ''abc''" "''t0''" downstream NewRecorder]
    by simp
  have 3: "CSRF ''t0'' downstream NewRecorder (form_post [(''csrf_token'', ''abc'')] ''abd'')
       = http_Error NewRecorder ''CSRF token invalid'' 403
       \<and> \<not> panicked (http_Error NewRecorder ''CSRF token invalid'' 403)
       \<and> status (state_of (http_Error NewRecorder ''CSRF token invalid'' 403)) = 403"
    using p [of "[(''csrf_token'', ''abc'')]" "''abd''"] c1 [of "''abd''"] n
      CSRF_json_bypass_and_token_check [of "form_post [(''csrf_token'', ''abc'')] ''abd''"
        "''t0''" downstream NewRecorder]
    by simp
  have 4: "CSRF ''t0'' downstream NewRecorder (form_post [(''csrf_token'', ''abc'')] ''abc'')
       = downstream NewRecorder (form_post [(''csrf_token'', ''abc'')] ''abc'')"
    using p [of "[(''csrf_token'', ''abc'')]" "''abc''"] c1 [of "''abc''"]
      CSRF_json_bypass_and_token_check [of "form_post [(''csrf_token'', ''abc'')] ''abc''"
        "''t0''" downstream NewRecorder]
    by simp
  from j p [of "[]" "''abc''"] p [of "[(''csrf_token'', ''abc'')]" "''abd''"]
       p [of "[(''csrf_token'', ''abc'')]" "''abc''"] c0 c1 1 2 3 4
  show ?thesis
    by simp
qed


section \<open>Rate limiter\<close>

lemma too_many_returns: "\<not> panicked (too_many window w)"
  by (simp add: too_many_def WriteHeader_cases)

lemma too_many_fresh:
  "\<not> wroteHeader w \<Longrightarrow>
     status (state_of (too_many window w)) = 429
     \<and> sentHeader (state_of (too_many window w)) ''Retry-After''
         = Some [Itoa (Seconds window)]
     \<and> body (state_of (too_many window w)) = body w @ [Text ''Rate limit exceeded'']"
  by (simp add: too_many_def WriteHeader_final Write_def Header_Set_def Let_def)

lemma Itoa_one_second: "Itoa (Seconds 1000000000) = ''1''"
  by (simp add: Itoa_def Seconds_def digit_def)

lemma RateLimit_local_burst:
  "map (status \<circ> state_of)
     (RateLimit_run 5 1000000000 downstream (\<lambda>ip. []) local_burst)
     = [200, 200, 200, 200, 200, 429]"
  by (simp add: local_burst_def RateLimit_def downstream_def
      too_many_def Let_def Write_def WriteHeader_def checkWriteHeaderCode_def Header_Set_def
      NewRecorder_def plain_request_def)

text \<open>
  C9, as the code has it. With no shared store configured, a request from an address
  with at least \<open>limit\<close> earlier requests inside the window is answered with
  \<open>too_many\<close> (status 429 and a Retry-After header, which is 1 for a window of one
  second) and never reaches the downstream handler; every request adds its time to
  the list of its own address and leaves every other address as it was, so the answer
  to a request of another address is the same as without it. With a shared store
  configured the decision is the store's: the answer is 429 when the pipeline reports
  a count above the limit, and the request goes downstream when the pipeline fails.
\<close>

theorem RateLimit_window:
  "(redis = None \<and>
      limit \<le> int (length (filter (\<lambda>t. t > now - window) (counts (RemoteAddr r)))) \<longrightarrow>
      snd (RateLimit limit window redis next counts now w r) = too_many window w)
   \<and> (redis = None \<longrightarrow>
        fst (RateLimit limit window redis next counts now w r) (RemoteAddr r)
          = filter (\<lambda>t. t > now - window) (counts (RemoteAddr r)) @ [now]
        \<and> (\<forall>ip. ip \<noteq> RemoteAddr r \<longrightarrow>
              fst (RateLimit limit window redis next counts now w r) ip = counts ip)
        \<and> (\<forall>r' now' w'. RemoteAddr r' \<noteq> RemoteAddr r \<longrightarrow>
              snd (RateLimit limit window None next
                     (fst (RateLimit limit window redis next counts now w r)) now' w' r')
              = snd (RateLimit limit window None next counts now' w' r')))
   \<and> (\<forall>count. redis = Some (Inr count) \<longrightarrow>
        snd (RateLimit limit window redis next counts now w r)
          = (if count > limit then too_many window w else next w r))
   \<and> (\<forall>err. redis = Some (Inl err) \<longrightarrow>
        snd (RateLimit limit window redis next counts now w r) = next w r)
   \<and> \<not> panicked (too_many window w)
   \<and> (\<not> wroteHeader w \<longrightarrow>
        status (state_of (too_many window w)) = 429
        \<and> sentHeader (state_of (too_many window w)) ''Retry-After''
            = Some [Itoa (Seconds window)])
   \<and> Itoa (Seconds 1000000000) = ''1''"
proof -
  have a: "redis = None \<and>
      limit \<le> int (length (filter (\<lambda>t. t > now - window) (counts (RemoteAddr r)))) \<longrightarrow>
      snd (RateLimit limit window redis next counts now w r) = too_many window w"
    by (simp add: RateLimit_def Let_def)
  have b: "redis = None \<longrightarrow>
        fst (RateLimit limit window redis next counts now w r) (RemoteAddr r)
          = filter (\<lambda>t. t > now - window) (counts (RemoteAddr r)) @ [now]
        \<and> (\<forall>ip. ip \<noteq> RemoteAddr r \<longrightarrow>
              fst (RateLimit limit window redis next counts now w r) ip = counts ip)"
    by (simp add: RateLimit_def Let_def)
  have c: "redis = None \<longrightarrow> (\<forall>r' now' w'. RemoteAddr r' \<noteq> RemoteAddr r \<longrightarrow>
              snd (RateLimit limit window None next
                     (fst (RateLimit limit window redis next counts now w r)) now' w' r')
              = snd (RateLimit limit window None next counts now' w' r'))"
    by (simp add: RateLimit_def Let_def)
  have d: "\<forall>count. redis = Some (Inr count) \<longrightarrow>
        snd (RateLimit limit window redis next counts now w r)
          = (if count > limit then too_many window w else next w r)"
    by (simp add: RateLimit_def redisRateLimit_def)
  have e: "\<forall>err. redis = Some (Inl err) \<longrightarrow>
        snd (RateLimit limit window redis next counts now w r) = next w r"
    by (simp add: RateLimit_def redisRateLimit_def)
  from a b c d e too_many_fresh [of w window] too_many_returns [of window w]
    Itoa_one_second show ?thesis
    by blast
qed

theorem RateLimit_window_witness:
  "5 \<le> int (length (filter (\<lambda>t. t > 6 - 1000000000) (five_earlier (RemoteAddr plain_request))))
   \<and> snd (RateLimit 5 1000000000 None downstream five_earlier 6 NewRecorder plain_request)
       = too_many 1000000000 NewRecorder
   \<and> \<not> wroteHeader NewRecorder
   \<and> \<not> panicked (too_many 1000000000 NewRecorder)
   \<and> status (state_of (too_many 1000000000 NewRecorder)) = 429
   \<and> sentHeader (state_of (too_many 1000000000 NewRecorder)) ''Retry-After'' = Some [''1'']
   \<and> RemoteAddr other_request \<noteq> RemoteAddr plain_request
   \<and> snd (RateLimit 5 1000000000 None downstream
            (fst (RateLimit 5 1000000000 None downstream five_earlier 6 NewRecorder plain_request))
            7 NewRecorder other_request)
       = snd (RateLimit 5 1000000000 None downstream five_earlier 7 NewRecorder other_request)
   \<and> snd (RateLimit 5 1000000000 None downstream five_earlier 7 NewRecorder other_request)
       = downstream NewRecorder other_request
   \<and> snd (RateLimit 5 1000000000 (Some (Inr 6)) downstream five_earlier 6 NewRecorder plain_request)
       = too_many 1000000000 NewRecorder
   \<and> snd (RateLimit 5 1000000000 (Some (Inl ''connection refused'')) downstream five_earlier 6
            NewRecorder plain_request)
       = downstream NewRecorder plain_request"
proof -
  have h: "5 \<le> int (length (filter (\<lambda>t. t > 6 - 1000000000)
                               (five_earlier (RemoteAddr plain_request))))"
    by (simp add: five_earlier_def plain_request_def)
  have n: "\<not> wroteHeader NewRecorder"
    by (simp add: NewRecorder_def)
  have o: "RemoteAddr other_request \<noteq> RemoteAddr plain_request"
    by (simp add: other_request_def plain_request_def)
  have p: "snd (RateLimit 5 1000000000 None downstream five_earlier 7 NewRecorder other_request)
       = downstream NewRecorder other_request"
    by (simp add: RateLimit_def Let_def five_earlier_def other_request_def plain_request_def)
  note t = RateLimit_window [of None 5 6 1000000000 five_earlier plain_request downstream NewRecorder]
  note u = RateLimit_window [of "Some (Inr 6)" 5 6 1000000000 five_earlier plain_request
             downstream NewRecorder]
  note v = RateLimit_window [of "Some (Inl ''connection refused'')" 5 6 1000000000 five_earlier
             plain_request downstream NewRecorder]
  have 1: "snd (RateLimit 5 1000000000 None downstream five_earlier 6 NewRecorder plain_request)
       = too_many 1000000000 NewRecorder"
    using t h by blast
  have 2: "\<not> panicked (too_many 1000000000 NewRecorder)
     \<and> status (state_of (too_many 1000000000 NewRecorder)) = 429
     \<and> sentHeader (state_of (too_many 1000000000 NewRecorder)) ''Retry-After''
         = Some [''1'']"
    using t n by simp
  have 3: "snd (RateLimit 5 1000000000 None downstream
            (fst (RateLimit 5 1000000000 None downstream five_earlier 6 NewRecorder plain_request))
            7 NewRecorder other_request)
       = snd (RateLimit 5 1000000000 None downstream five_earlier 7 NewRecorder other_request)"
    using t o by blast
  have 4: "snd (RateLimit 5 1000000000 (Some (Inr 6)) downstream five_earlier 6 NewRecorder
                 plain_request) = too_many 1000000000 NewRecorder"
    using u by simp
  have 5: "snd (RateLimit 5 1000000000 (Some (Inl ''connection refused'')) downstream
                 five_earlier 6 NewRecorder plain_request) = downstream NewRecorder plain_request"
    using v by simp
  from h n o p 1 2 3 4 5 show ?thesis
    by blast
qed

text \<open>
  C9 as stated fails when the shared store is configured and unreachable: of six
  requests of one address inside one second, with limit 5, the sixth is passed
  downstream like the first five.
\<close>

theorem RateLimit_store_failure_counterexample:
  "map panicked (RateLimit_run 5 1000000000 downstream (\<lambda>ip. []) outage)
     = [False, False, False, False, False, False]
   \<and> map (status \<circ> state_of) (RateLimit_run 5 1000000000 downstream (\<lambda>ip. []) outage)
     = [200, 200, 200, 200, 200, 200]
   \<and> map (body \<circ> state_of) (RateLimit_run 5 1000000000 downstream (\<lambda>ip. []) outage)
     = [[Text ''ok''], [Text ''ok''], [Text ''ok''], [Text ''ok''], [Text ''ok''], [Text ''ok'']]"
  by (simp add: outage_def RateLimit_def redisRateLimit_def downstream_def
      Let_def Write_def NewRecorder_def plain_request_def)


section \<open>Resource routes\<close>

text \<open>
  C2, evaluated on the code. For a controller with \<open>Index\<close> and \<open>Show\<close> only,
  \<open>Resources\<close> records and installs \<open>GET /widgets\<close> and \<open>GET /widgets/{id}\<close> and
  nothing else; \<open>GET /widgets\<close> and \<open>GET /widgets/7\<close> reach \<open>Index\<close> and \<open>Show\<close>.
  But \<open>GET /widgets/new\<close> also reaches \<open>Show\<close>, with \<open>id\<close> bound to \<open>new\<close>, and
  \<open>POST /widgets\<close> and \<open>PUT /widgets/7\<close>, whose paths are installed for GET, are
  answered 405 and not 404.
\<close>

theorem Resources_Index_Show_routing:
  "routes widgets_router =
     [\<lparr>Method = ''GET'', Path = ''/widgets'', Handler = ''WidgetsController#Index''\<rparr>,
      \<lparr>Method = ''GET'', Path = ''/widgets/{id}'', Handler = ''WidgetsController#Show''\<rparr>]
   \<and> serve (Mux widgets_router) ''GET'' ''/widgets'' = Found ''WidgetsController#Index'' []
   \<and> serve (Mux widgets_router) ''GET'' ''/widgets/7''
       = Found ''WidgetsController#Show'' [(''id'', ''7'')]
   \<and> serve (Mux widgets_router) ''GET'' ''/widgets/new''
       = Found ''WidgetsController#Show'' [(''id'', ''new'')]
   \<and> serve (Mux widgets_router) ''POST'' ''/widgets'' = MethodNotAllowed405
   \<and> serve (Mux widgets_router) ''PUT'' ''/widgets/7'' = MethodNotAllowed405"
  by code_simp

lemma nested_route_path:
  "last (routes (Resources name c (Some (addRoute m p h)) r)) =
     \<lparr>Method = m, Path = ''/'' @ name @ ''/{'' @ singleName name @ ''_id}'' @ p, Handler = h\<rparr>"
  by (simp add: Resources_def Let_def addRoute_def)

text \<open>
  C4, evaluated on the code. The prefix of the nested router is \<open>"/" + name + "/{" +
  singleName(name) + "_id}"\<close> whatever the prefix of the parent is. At the top level
  the nested resource of the example is recorded as \<open>GET /posts/{post_id}/comments\<close>
  and a request for \<open>/posts/5/comments\<close> reaches it with \<open>post_id = 5\<close>, and
  \<open>posts\<close> singularises to \<open>post\<close>. Inside the namespace \<open>/api\<close> the route is
  still recorded as \<open>/posts/{post_id}/comments\<close>, while the mux serves it under
  \<open>/api/posts/5/comments\<close> and has nothing at \<open>/posts/5/comments\<close>.
\<close>

theorem Resources_nested_prefix:
  "(\<forall>name c m p h r.
      last (routes (Resources name c (Some (addRoute m p h)) r)) =
        \<lparr>Method = m, Path = ''/'' @ name @ ''/{'' @ singleName name @ ''_id}'' @ p,
         Handler = h\<rparr>)
   \<and> singleName ''posts'' = ''post'' \<and> singularize ''posts'' = ''post''
   \<and> \<lparr>Method = ''GET'', Path = ''/posts/{post_id}/comments'',
       Handler = ''CommentsController#Index''\<rparr> \<in> set (routes posts_router)
   \<and> serve (Mux posts_router) ''GET'' ''/posts/5/comments''
       = Found ''CommentsController#Index'' [(''post_id'', ''5'')]
   \<and> routes api_posts_router =
       [\<lparr>Method = ''GET'', Path = ''/api/posts'', Handler = ''PostsController#Index''\<rparr>,
        \<lparr>Method = ''POST'', Path = ''/api/posts'', Handler = ''PostsController#Create''\<rparr>,
        \<lparr>Method = ''GET'', Path = ''/api/posts/{id}'', Handler = ''PostsController#Show''\<rparr>,
        \<lparr>Method = ''PUT'', Path = ''/api/posts/{id}'', Handler = ''PostsController#Update''\<rparr>,
        \<lparr>Method = ''PATCH'', Path = ''/api/posts/{id}'', Handler = ''PostsController#Update''\<rparr>,
        \<lparr>Method = ''DELETE'', Path = ''/api/posts/{id}'', Handler = ''PostsController#Destroy''\<rparr>,
        \<lparr>Method = ''GET'', Path = ''/posts/{post_id}/comments'',
           Handler = ''CommentsController#Index''\<rparr>,
        \<lparr>Method = ''POST'', Path = ''/posts/{post_id}/comments'',
           Handler = ''CommentsController#Create''\<rparr>]
   \<and> serve (Mux api_posts_router) ''GET'' ''/api/posts/5/comments''
       = Found ''CommentsController#Index'' [(''post_id'', ''5'')]
   \<and> serve (Mux api_posts_router) ''GET'' ''/posts/5/comments'' = NotFound404"
proof -
  have g: "\<forall>name c m p h r.
      last (routes (Resources name c (Some (addRoute m p h)) r)) =
        \<lparr>Method = m, Path = ''/'' @ name @ ''/{'' @ singleName name @ ''_id}'' @ p,
         Handler = h\<rparr>"
    by (simp add: nested_route_path)
  have s: "singleName ''posts'' = ''post'' \<and> singularize ''posts'' = ''post''"
    by code_simp
  have t: "\<lparr>Method = ''GET'', Path = ''/posts/{post_id}/comments'',
       Handler = ''CommentsController#Index''\<rparr> \<in> set (routes posts_router)"
    by code_simp
  have u: "serve (Mux posts_router) ''GET'' ''/posts/5/comments''
       = Found ''CommentsController#Index'' [(''post_id'', ''5'')]"
    by code_simp
  have v: "routes api_posts_router =
       [\<lparr>Method = ''GET'', Path = ''/api/posts'', Handler = ''PostsController#Index''\<rparr>,
        \<lparr>Method = ''POST'', Path = ''/api/posts'', Handler = ''PostsController#Create''\<rparr>,
        \<lparr>Method = ''GET'', Path = ''/api/posts/{id}'', Handler = ''PostsController#Show''\<rparr>,
        \<lparr>Method = ''PUT'', Path = ''/api/posts/{id}'', Handler = ''PostsController#Update''\<rparr>,
        \<lparr>Method = ''PATCH'', Path = ''/api/posts/{id}'', Handler = ''PostsController#Update''\<rparr>,
        \<lparr>Method = ''DELETE'', Path = ''/api/posts/{id}'', Handler = ''PostsController#Destroy''\<rparr>,
        \<lparr>Method = ''GET'', Path = ''/posts/{post_id}/comments'',
           Handler = ''CommentsController#Index''\<rparr>,
        \<lparr>Method = ''POST'', Path = ''/posts/{post_id}/comments'',
           Handler = ''CommentsController#Create''\<rparr>]"
    by code_simp
  have w: "serve (Mux api_posts_router) ''GET'' ''/api/posts/5/comments''
       = Found ''CommentsController#Index'' [(''post_id'', ''5'')]
     \<and> serve (Mux api_posts_router) ''GET'' ''/posts/5/comments'' = NotFound404"
    by code_simp
  from g s t u v w show ?thesis
    by blast
qed

section \<open>Faults in a handler\<close>

text \<open>
  C7, evaluated on the code. The guard of \<open>ActionHandler\<close> does not look at the flag
  \<open>written\<close>. When the action has sent status 200 and then panics, the sink keeps
  status 200 and the error body is appended to it, in production and in development
  mode. When the action panics before any write, the status is 500 and the body is the
  fixed text (production) or the error page (development), but the content type, set
  after \<open>WriteHeader\<close>, is not among the headers sent; and with the package logger nil
  \<open>ProdErrorHandler\<close> panics itself after writing.
\<close>

theorem ActionHandler_panic_after_write:
  "ActionHandler True stack write_then_panic None NewRecorder plain_request =
     Served \<lparr>header = [''Content-Type'' \<mapsto> [''application/json'']], wroteHeader = True,
             status = 200, sentHeader = Map.empty, body = [Text prod_body]\<rparr>
   \<and> ActionHandler True stack write_then_panic dev_app NewRecorder plain_request =
     Served \<lparr>header = [''Content-Type'' \<mapsto> [''text/html; charset=utf-8'']], wroteHeader = True,
             status = 200, sentHeader = Map.empty, body = [DevPage ''boom'' stack]\<rparr>
   \<and> ActionHandler True stack panic_at_once None NewRecorder plain_request =
     Served \<lparr>header = [''Content-Type'' \<mapsto> [''application/json'']], wroteHeader = True,
             status = 500, sentHeader = Map.empty, body = [Text prod_body]\<rparr>
   \<and> ActionHandler True stack panic_at_once dev_app NewRecorder plain_request =
     Served \<lparr>header = [''Content-Type'' \<mapsto> [''text/html; charset=utf-8'']], wroteHeader = True,
             status = 500, sentHeader = Map.empty, body = [DevPage ''boom'' stack]\<rparr>
   \<and> ActionHandler False stack panic_at_once None NewRecorder plain_request =
     Escaped ''runtime error: invalid memory address or nil pointer dereference''
       \<lparr>header = [''Content-Type'' \<mapsto> [''application/json'']], wroteHeader = True,
        status = 500, sentHeader = Map.empty, body = [Text prod_body]\<rparr>"
  by (simp add: ActionHandler_def recovered_def write_then_panic_def panic_at_once_def
      dev_app_def is_development_def NewContext_def Status_def ProdErrorHandler_def
      DevErrorHandler_def NewRecorder_def Write_def WriteHeader_def checkWriteHeaderCode_def
      Header_Set_def Let_def)

end
